theory Spec2Isabelle
  imports Complex_Main
begin

section \<open>The retry combinator \<open>exponentialBackoff\<close>\<close>

text \<open>
  The source (TransactionsProvider, lines 19-32):
  \<^verbatim>\<open>
  const delay = (ms) => new Promise(resolve => setTimeout(resolve, ms));
  const exponentialBackoff = async (fn, maxRetries = 5, initialDelay = 1000) => {
      for (let i = 0; i < maxRetries; i++) {
        try { await fn(); return true; }
        catch (error) {
          if (i === maxRetries - 1) return false;
          await delay(initialDelay * Math.pow(2, i));
        }
      }
      return false;
  };
  \<close>
  The action \<open>fn\<close> is effectful: it is a state transformer that also says whether it
  resolved (\<open>True\<close>) or threw (\<open>False\<close>). What the combinator does to the outside world
  is recorded as a list of events: every invocation of the action with its outcome
  (\<open>Invoke\<close>) and every sleep with its duration in milliseconds (\<open>Sleep\<close>); the polling
  loops below add the start of an outer poll with the delay it hands down (\<open>Poll\<close>) and
  the timer that schedules the next outer poll (\<open>Timeout\<close>). The loop counter, the
  attempt bound and the delay are integers: both call sites pass the literal 5 and an
  integral delay, so the default values of the two parameters are never used. The action
  is a total function: an action whose promise never settles is outside the model.
\<close>

datatype event = Invoke bool | Sleep int | Poll int | Timeout int

function exponentialBackoff_from ::
  "int \<Rightarrow> ('s \<Rightarrow> bool \<times> 's) \<Rightarrow> int \<Rightarrow> int \<Rightarrow> 's \<Rightarrow> bool \<times> 's \<times> event list" where
  "exponentialBackoff_from i fn maxRetries initialDelay s =
     (if i < maxRetries then
        (case fn s of (ok, s') \<Rightarrow>
           if ok then (True, s', [Invoke True])
           else if i = maxRetries - 1 then (False, s', [Invoke False])
           else (case exponentialBackoff_from (i + 1) fn maxRetries initialDelay s' of
                   (r, s'', tr) \<Rightarrow>
                     (r, s'', Invoke False # Sleep (initialDelay * 2 ^ nat i) # tr)))
      else (False, s, []))"
  by pat_completeness auto
termination
  by (relation "measure (\<lambda>(i, fn, maxRetries, initialDelay, s). nat (maxRetries - i))") auto

definition exponentialBackoff ::
  "('s \<Rightarrow> bool \<times> 's) \<Rightarrow> int \<Rightarrow> int \<Rightarrow> 's \<Rightarrow> bool \<times> 's \<times> event list" where
  "exponentialBackoff fn maxRetries initialDelay s =
     exponentialBackoff_from 0 fn maxRetries initialDelay s"

text \<open>Reading a trace: its invocations, and the durations of its sleeps, of the outer
  polls it starts and of the timers it sets.\<close>

fun is_Invoke :: "event \<Rightarrow> bool" where
  "is_Invoke (Invoke b) = True"
| "is_Invoke e = False"

fun sleeps :: "event list \<Rightarrow> int list" where
  "sleeps [] = []"
| "sleeps (Sleep d # tr) = d # sleeps tr"
| "sleeps (e # tr) = sleeps tr"



text \<open>The state after \<open>n\<close> invocations of the action in a row, and the outcome of the
  invocation number \<open>j\<close> (counted from 0).\<close>

primrec state_after :: "nat \<Rightarrow> ('s \<Rightarrow> bool \<times> 's) \<Rightarrow> 's \<Rightarrow> 's" where
  "state_after 0 fn s = s"
| "state_after (Suc n) fn s = state_after n fn (snd (fn s))"

definition succeeds_at :: "('s \<Rightarrow> bool \<times> 's) \<Rightarrow> 's \<Rightarrow> nat \<Rightarrow> bool" where
  "succeeds_at fn s j = fst (fn (state_after j fn s))"

text \<open>\<open>k\<close> failed invocations, each followed by its sleep: the sleep after the failure
  number \<open>j\<close> (the loop counter then being \<open>i + j\<close>) lasts \<open>initialDelay * 2 ^ (i + j)\<close>.\<close>

primrec failed_rounds :: "int \<Rightarrow> nat \<Rightarrow> nat \<Rightarrow> event list" where
  "failed_rounds initialDelay i 0 = []"
| "failed_rounds initialDelay i (Suc k) =
     Invoke False # Sleep (initialDelay * 2 ^ i) # failed_rounds initialDelay (Suc i) k"

section \<open>The polling loop \<open>run\<close> of the reconciler\<close>


section \<open>Ledger data\<close>

text \<open>
  Addresses and signatures are their base58 strings. A \<open>BigNumber\<close> is a rational or
  \<open>NaN\<close> (what the constructor gives for \<open>undefined\<close> or for a string that is no number);
  comparisons with \<open>NaN\<close> are false and arithmetic on \<open>NaN\<close> gives \<open>NaN\<close>. Division by
  \<open>LAMPORTS_PER_SOL\<close> is exact: a quotient of an integer by \<open>10 ^ 9\<close> has nine decimal
  places, within the twenty the library keeps.
\<close>

type_synonym PublicKey = string
type_synonym TransactionSignature = string

datatype BigNumber = NaN | BN rat

fun bn_lt :: "BigNumber \<Rightarrow> BigNumber \<Rightarrow> bool" where
  "bn_lt (BN a) (BN b) = (a < b)"
| "bn_lt x y = False"

fun bn_minus :: "BigNumber \<Rightarrow> BigNumber \<Rightarrow> BigNumber" where
  "bn_minus (BN a) (BN b) = BN (a - b)"
| "bn_minus x y = NaN"

fun bn_div :: "BigNumber \<Rightarrow> rat \<Rightarrow> BigNumber" where
  "bn_div (BN a) d = BN (a / d)"
| "bn_div NaN d = NaN"

text \<open>\<open>new BigNumber(x)\<close> for a lamport balance read from an array: \<open>undefined\<close> when the
  index is out of range.\<close>

fun bn_of_number :: "nat option \<Rightarrow> BigNumber" where
  "bn_of_number None = NaN"
| "bn_of_number (Some n) = BN (of_nat n)"

definition LAMPORTS_PER_SOL :: rat where
  "LAMPORTS_PER_SOL = 1000000000"

text \<open>A JavaScript array read \<open>xs[i]\<close>, and \<open>xs.findIndex(p)\<close> with \<open>None\<close> for \<open>-1\<close>.\<close>

definition at_index :: "'a list \<Rightarrow> nat \<Rightarrow> 'a option" where
  "at_index xs i = (if i < length xs then Some (xs ! i) else None)"

fun findIndex_from :: "nat \<Rightarrow> ('a \<Rightarrow> bool) \<Rightarrow> 'a list \<Rightarrow> nat option" where
  "findIndex_from i p [] = None"
| "findIndex_from i p (x # xs) = (if p x then Some i else findIndex_from (Suc i) p xs)"

definition findIndex :: "('a \<Rightarrow> bool) \<Rightarrow> 'a list \<Rightarrow> nat option" where
  "findIndex p xs = findIndex_from 0 p xs"

text \<open>A settled promise: rejected (the \<open>await\<close> throws) or resolved with a value. The only
  error kind the code tells apart is \<open>FindReferenceError\<close>.\<close>

datatype rpc_error = FindReferenceError | OtherError string

datatype 'a settled = Rejected rpc_error | Resolved 'a

record ParsedInfo =
  source :: "string option"
  destination :: "string option"

record Parsed =
  parsed_type :: "string option"
  info :: "ParsedInfo option"

text \<open>An instruction is partially decoded (it has no \<open>program\<close> field) or parsed; \<open>parsed\<close>
  has type \<open>any\<close> and is \<open>None\<close> when it is \<open>null\<close> or \<open>undefined\<close>.\<close>

datatype Instruction =
  PartiallyDecodedInstruction
| ParsedInstruction (program: string) (parsed: "Parsed option")

record TokenBalance =
  accountIndex :: nat
  uiAmountString :: "string option"

record Meta =
  err :: "string option"
  preBalances :: "nat list"
  postBalances :: "nat list"
  preTokenBalances :: "TokenBalance list option"
  postTokenBalances :: "TokenBalance list option"

record ParsedTransactionWithMeta =
  meta :: "Meta option"
  blockTime :: "int option"
  instructions :: "Instruction list"
  accountKeys :: "PublicKey list"

record SignatureStatus =
  confirmationStatus :: "string option"
  confirmations :: "nat option"

text \<open>The record the reconciler emits (\<open>Transaction\<close> of \<open>useTransactions\<close>); its \<open>amount\<close>
  is kept as the number whose \<open>toString()\<close> the code stores.\<close>

record Transaction =
  tx_signature :: TransactionSignature
  tx_amount :: BigNumber
  tx_timestamp :: int
  tx_error :: "string option"
  tx_status :: string
  tx_confirmations :: nat

text \<open>
  What the extraction reads from outside the source file: the configured recipient, the
  resolved associated token account (absent in native mode), the constant
  \<open>MAX_CONFIRMATIONS\<close> of \<open>utils/constants\<close>, and the \<open>BigNumber\<close> constructor on strings.
\<close>

record Config =
  recipient :: PublicKey
  associatedToken :: "PublicKey option"
  MAX_CONFIRMATIONS :: nat
  BigNumber_of_string :: "string \<Rightarrow> BigNumber"

section \<open>Stage B: extraction of one transfer record\<close>

text \<open>The callback of \<open>signatures.map\<close> (lines 128-213) returns a record, returns
  \<open>undefined\<close>, or throws a \<open>TypeError\<close> (reading \<open>info\<close> of a null \<open>parsed\<close>).\<close>

datatype 'a mapped = Throws | Discarded | Emitted 'a

definition info_source :: "ParsedInfo option \<Rightarrow> string option" where
  "info_source i = (case i of None \<Rightarrow> None | Some x \<Rightarrow> source x)"

definition info_destination :: "ParsedInfo option \<Rightarrow> string option" where
  "info_destination i = (case i of None \<Rightarrow> None | Some x \<Rightarrow> destination x)"

text \<open>Native mode (lines 147-165): the pre and post amounts, or \<open>None\<close> for \<open>return\<close>.\<close>

definition native_amounts ::
  "PublicKey \<Rightarrow> ParsedTransactionWithMeta \<Rightarrow> Meta \<Rightarrow> string \<Rightarrow> string option \<Rightarrow>
   ParsedInfo option \<Rightarrow> (BigNumber \<times> BigNumber) option" where
  "native_amounts rcpt ptx m prog ty i =
     (if \<not> (prog = ''system'' \<and> ty = Some ''transfer'') then None
      else if info_destination i \<noteq> Some rcpt then None
      else if info_source i = Some rcpt then None
      else (case findIndex (\<lambda>pubkey. pubkey = rcpt) (accountKeys ptx) of
              None \<Rightarrow> None
            | Some ix \<Rightarrow>
                Some (bn_div (bn_of_number (at_index (preBalances m) ix)) LAMPORTS_PER_SOL,
                      bn_div (bn_of_number (at_index (postBalances m) ix)) LAMPORTS_PER_SOL)))"

text \<open>\<open>balances?.find(x => x.accountIndex === accountIndex)\<close> followed by the test
  \<open>!balance?.uiTokenAmount.uiAmountString\<close>: the string when it is present and not empty.\<close>

definition token_amount_string :: "TokenBalance list option \<Rightarrow> nat \<Rightarrow> string option" where
  "token_amount_string balances ix =
     (case balances of
        None \<Rightarrow> None
      | Some bs \<Rightarrow>
          (case find (\<lambda>x. accountIndex x = ix) bs of
             None \<Rightarrow> None
           | Some b \<Rightarrow>
               (case uiAmountString b of
                  None \<Rightarrow> None
                | Some str \<Rightarrow> if str = [] then None else Some str)))"

text \<open>Token mode (lines 167-193).\<close>

definition token_amounts ::
  "(string \<Rightarrow> BigNumber) \<Rightarrow> PublicKey \<Rightarrow> ParsedTransactionWithMeta \<Rightarrow> Meta \<Rightarrow> string \<Rightarrow>
   string option \<Rightarrow> ParsedInfo option \<Rightarrow> (BigNumber \<times> BigNumber) option" where
  "token_amounts bn ata ptx m prog ty i =
     (if \<not> (prog = ''spl-token'' \<and> (ty = Some ''transfer'' \<or> ty = Some ''transferChecked''))
      then None
      else if info_destination i \<noteq> Some ata then None
      else if info_source i = Some ata then None
      else (case findIndex (\<lambda>pubkey. pubkey = ata) (accountKeys ptx) of
              None \<Rightarrow> None
            | Some ix \<Rightarrow>
                (case token_amount_string (preTokenBalances m) ix of
                   None \<Rightarrow> None
                 | Some pre \<Rightarrow>
                     (case token_amount_string (postTokenBalances m) ix of
                        None \<Rightarrow> None
                      | Some post \<Rightarrow> Some (bn pre, bn post)))))"

definition amounts ::
  "Config \<Rightarrow> ParsedTransactionWithMeta \<Rightarrow> Meta \<Rightarrow> string \<Rightarrow> string option \<Rightarrow>
   ParsedInfo option \<Rightarrow> (BigNumber \<times> BigNumber) option" where
  "amounts cfg ptx m prog ty i =
     (case associatedToken cfg of
        None \<Rightarrow> native_amounts (recipient cfg) ptx m prog ty i
      | Some ata \<Rightarrow> token_amounts (BigNumber_of_string cfg) ata ptx m prog ty i)"

text \<open>Lines 196-212: the negative-amount guard, the confirmations, the record.
  \<open>signatureStatus.confirmations || 0\<close> is 0 for \<open>null\<close> (and for 0).\<close>

definition emit ::
  "Config \<Rightarrow> TransactionSignature \<Rightarrow> int \<Rightarrow> string option \<Rightarrow> string \<Rightarrow> SignatureStatus \<Rightarrow>
   BigNumber \<times> BigNumber \<Rightarrow> Transaction mapped" where
  "emit cfg sig ts e st signatureStatus pp =
     (case pp of (preAmount, postAmount) \<Rightarrow>
        if bn_lt postAmount preAmount then Discarded
        else Emitted \<lparr>
          tx_signature = sig,
          tx_amount = bn_minus postAmount preAmount,
          tx_timestamp = ts,
          tx_error = e,
          tx_status = st,
          tx_confirmations =
            (if st = ''finalized'' then MAX_CONFIRMATIONS cfg
             else (case confirmations signatureStatus of None \<Rightarrow> 0 | Some c \<Rightarrow> c)) \<rparr>)"

text \<open>Lines 129-143: the preconditions on the transaction, its status and its single
  instruction. \<open>!timestamp\<close> holds for \<open>null\<close> and for 0, \<open>!status\<close> for \<open>undefined\<close> and
  for the empty string.\<close>

definition extract_transfer ::
  "Config \<Rightarrow> ParsedTransactionWithMeta option \<Rightarrow> SignatureStatus option \<Rightarrow>
   TransactionSignature \<Rightarrow> Transaction mapped" where
  "extract_transfer cfg parsedTransaction signatureStatus sig =
     (case parsedTransaction of
        None \<Rightarrow> Discarded
      | Some ptx \<Rightarrow>
     (case meta ptx of
        None \<Rightarrow> Discarded
      | Some m \<Rightarrow>
     (case signatureStatus of
        None \<Rightarrow> Discarded
      | Some ss \<Rightarrow>
     (case blockTime ptx of
        None \<Rightarrow> Discarded
      | Some ts \<Rightarrow>
     (case confirmationStatus ss of
        None \<Rightarrow> Discarded
      | Some st \<Rightarrow>
          if ts = 0 \<or> st = [] then Discarded
          else (case instructions ptx of
                  [instruction] \<Rightarrow>
                    (case instruction of
                       PartiallyDecodedInstruction \<Rightarrow> Discarded
                     | ParsedInstruction prog None \<Rightarrow> Throws
                     | ParsedInstruction prog (Some p) \<Rightarrow>
                         (case amounts cfg ptx m prog (parsed_type p) (info p) of
                            None \<Rightarrow> Discarded
                          | Some pp \<Rightarrow> emit cfg sig ts (err m) st ss pp))
                | _ \<Rightarrow> Discarded))))))"

text \<open>\<open>signatures.map(...).filter(...)\<close> (lines 127-214): \<open>None\<close> when a callback throws,
  which aborts the map; otherwise the emitted records in order. The parsed transaction
  and the status of a signature are read at the signature's index.\<close>

definition entry :: "'a option list \<Rightarrow> nat \<Rightarrow> 'a option" where
  "entry xs i = (case at_index xs i of None \<Rightarrow> None | Some x \<Rightarrow> x)"

definition mapped_signatures ::
  "Config \<Rightarrow> ParsedTransactionWithMeta option list \<Rightarrow> SignatureStatus option list \<Rightarrow>
   TransactionSignature list \<Rightarrow> Transaction mapped list" where
  "mapped_signatures cfg parsedTransactions signatureStatuses sigs =
     map (\<lambda>(signatureIndex, sig).
            extract_transfer cfg (entry parsedTransactions signatureIndex)
              (entry signatureStatuses signatureIndex) sig)
         (enumerate 0 sigs)"

fun emitted :: "'a mapped list \<Rightarrow> 'a list" where
  "emitted [] = []"
| "emitted (Emitted t # rs) = t # emitted rs"
| "emitted (r # rs) = emitted rs"

definition reconcile ::
  "Config \<Rightarrow> ParsedTransactionWithMeta option list \<Rightarrow> SignatureStatus option list \<Rightarrow>
   TransactionSignature list \<Rightarrow> Transaction list option" where
  "reconcile cfg parsedTransactions signatureStatuses sigs =
     (let rs = mapped_signatures cfg parsedTransactions signatureStatuses sigs
      in if Throws \<in> set rs then None else Some (emitted rs))"

section \<open>Vocabulary of the claims on Stage B\<close>






text \<open>
  A native transfer of 2.5 SOL from \<open>S\<close> to the recipient \<open>R\<close>, whose balance goes from
  10 SOL to 12.5 SOL, seen at commitment "confirmed" with 3 confirmations, and the same
  transaction once finalized.
\<close>

definition example_config :: Config where
  "example_config =
     \<lparr>recipient = ''R'', associatedToken = None, MAX_CONFIRMATIONS = 32,
      BigNumber_of_string = (\<lambda>str. NaN)\<rparr>"

definition example_meta :: Meta where
  "example_meta =
     \<lparr>err = None,
      preBalances = [20000000000, 10000000000],
      postBalances = [17499995000, 12500000000],
      preTokenBalances = None, postTokenBalances = None\<rparr>"

definition example_transfer :: ParsedTransactionWithMeta where
  "example_transfer =
     \<lparr>meta = Some example_meta,
      blockTime = Some 1700000000,
      instructions =
        [ParsedInstruction ''system''
           (Some \<lparr>parsed_type = Some ''transfer'',
                  info = Some \<lparr>source = Some ''S'', destination = Some ''R''\<rparr>\<rparr>)],
      accountKeys = [''S'', ''R'']\<rparr>"


definition example_confirmed :: SignatureStatus where
  "example_confirmed = \<lparr>confirmationStatus = Some ''confirmed'', confirmations = Some 3\<rparr>"

definition example_finalized :: SignatureStatus where
  "example_finalized = \<lparr>confirmationStatus = Some ''finalized'', confirmations = None\<rparr>"

definition example_processed :: SignatureStatus where
  "example_processed = \<lparr>confirmationStatus = Some ''processed'', confirmations = Some 0\<rparr>"

definition example_record :: "string \<Rightarrow> nat \<Rightarrow> Transaction" where
  "example_record st c =
     \<lparr>tx_signature = ''sig1'', tx_amount = BN (5 / 2), tx_timestamp = 1700000000,
      tx_error = None, tx_status = st, tx_confirmations = c\<rparr>"

text \<open>
  Token mode: a \<open>transferChecked\<close> of 3 tokens to the resolved token account \<open>ATA\<close>,
  whose balance goes from 0 to 3, and the same instruction sent to another account.
\<close>

definition example_token_config :: Config where
  "example_token_config =
     \<lparr>recipient = ''R'', associatedToken = Some ''ATA'', MAX_CONFIRMATIONS = 32,
      BigNumber_of_string =
        (\<lambda>str. if str = ''0'' then BN 0 else if str = ''3'' then BN 3 else NaN)\<rparr>"

definition example_token_transfer :: "string \<Rightarrow> ParsedTransactionWithMeta" where
  "example_token_transfer dest =
     \<lparr>meta = Some \<lparr>err = None,
                    preBalances = [20000000000, 2039280, 2039280],
                    postBalances = [19999995000, 2039280, 2039280],
                    preTokenBalances =
                      Some [\<lparr>accountIndex = 1, uiAmountString = Some ''3''\<rparr>,
                            \<lparr>accountIndex = 2, uiAmountString = Some ''0''\<rparr>],
                    postTokenBalances =
                      Some [\<lparr>accountIndex = 1, uiAmountString = Some ''0''\<rparr>,
                            \<lparr>accountIndex = 2, uiAmountString = Some ''3''\<rparr>]\<rparr>,
      blockTime = Some 1700000000,
      instructions =
        [ParsedInstruction ''spl-token''
           (Some \<lparr>parsed_type = Some ''transferChecked'',
                  info = Some \<lparr>source = Some ''SRC'', destination = Some dest\<rparr>\<rparr>)],
      accountKeys = [''S'', ''SRC'', ''ATA'']\<rparr>"

section \<open>Stage A and Stage B: the polled actions\<close>

text \<open>
  The state one polling loop acts on: the provider's cells \<open>signatures\<close>, \<open>transactions\<close>
  and \<open>loading\<close>, which it shares with the other effects of the provider, the closure
  variable \<open>changed\<close> of the effect instance that owns the loop, and the number of ledger
  calls the loop has made so far. The ledger is a parameter: its reply to the call number
  \<open>n\<close> is a settled promise, together with a flag that says whether the effect's cleanup
  ran before the action resumed from that call (during the sleep or the timer that
  preceded the call, or while the call was in flight: the action reads \<open>changed\<close> only
  after the \<open>await\<close>, and the cleanup does not touch \<open>loading\<close>, so the three cannot be
  told apart).
\<close>

record world =
  signatures :: "TransactionSignature list"
  transactions :: "Transaction list"
  loading :: bool
  changed :: bool
  calls :: nat

record 'a reply =
  cancelled :: bool
  settled :: "'a settled"

text \<open>
  The two stage loops run side by side and both write the one \<open>loading\<close> cell (line 47;
  lines 77, 89, 119 and 216). What the rest of the provider writes while a loop is
  suspended is a parameter too: \<open>asleep n\<close> is applied before the loop issues its call
  number \<open>n\<close> (the writes made while the loop slept or waited for its timer),
  \<open>in_flight n\<close> while that call is awaited. Nothing runs between the last statement of
  an action and the return of \<open>exponentialBackoff\<close>.
\<close>

record interference =
  asleep :: "nat \<Rightarrow> world \<Rightarrow> world"
  in_flight :: "nat \<Rightarrow> world \<Rightarrow> world"


text \<open>The other stage, clearing \<open>loading\<close> while a call of this loop is in flight.\<close>

definition other_stage_clears :: interference where
  "other_stage_clears = \<lparr>asleep = (\<lambda>n w. w), in_flight = (\<lambda>n w. w\<lparr>loading := False\<rparr>)\<rparr>"

text \<open>Modelled from the spec: \<open>arraysEqual\<close> of \<open>utils/arraysEqual\<close> is not among the
  sources; the spec calls it a structural equality check on the ordered contents.\<close>

definition arraysEqual :: "'a list \<Rightarrow> 'a list \<Rightarrow> bool" where
  "arraysEqual xs ys = (xs = ys)"

text \<open>The cleanups of the two effects (lines 105-108 and 232-234).\<close>

definition stageA_cleanup :: "world \<Rightarrow> world" where
  "stageA_cleanup w = w\<lparr>changed := True, signatures := []\<rparr>"


text \<open>The first statements of both actions (lines 77-78 and 119-120): \<open>setLoading(true)\<close>,
  then the ledger call is issued.\<close>

definition start_call :: "world \<Rightarrow> world" where
  "start_call w = w\<lparr>loading := True, calls := calls w + 1\<rparr>"

text \<open>The rest of the Stage A action (lines 83-89), run when the call settles, on the
  state found then.\<close>

definition stageA_settle :: "TransactionSignature list reply \<Rightarrow> world \<Rightarrow> bool \<times> world" where
  "stageA_settle r w =
     (let w2 = (if cancelled r then stageA_cleanup w else w)
      in case settled r of
           Rejected e \<Rightarrow> (False, w2)
         | Resolved nextSignatures \<Rightarrow>
             if changed w2 then (True, w2)
             else (True, w2\<lparr>signatures :=
                               (if arraysEqual (signatures w2) nextSignatures
                                then signatures w2 else nextSignatures),
                             loading := False\<rparr>))"

text \<open>The action of Stage A (lines 76-90).\<close>

definition stageA_action ::
  "(nat \<Rightarrow> TransactionSignature list reply) \<Rightarrow> interference \<Rightarrow> world \<Rightarrow> bool \<times> world" where
  "stageA_action ledger others w =
     stageA_settle (ledger (calls w))
       (in_flight others (calls w) (start_call (asleep others (calls w) w)))"



text \<open>The provider's state when an effect starts with nothing in flight.\<close>

definition idle_world :: "TransactionSignature list \<Rightarrow> world" where
  "idle_world sigs =
     \<lparr>signatures = sigs, transactions = [], loading = False, changed = False, calls = 0\<rparr>"

section \<open>The payment session\<close>

text \<open>
  The state of PaymentProvider: the four \<open>useState\<close> cells, and as ghost fields the
  calls of \<open>navigate\<close> (path and \<open>replace\<close> flag) and of \<open>console.error\<close>.
\<close>

text \<open>Modelled from the spec: the enum \<open>PaymentStatus\<close> of \<open>hooks/usePayment\<close> is not
  among the sources; the spec gives the statuses New, Pending and Confirmed, the three
  the provider uses.\<close>

datatype PaymentStatus = New | Pending | Confirmed

record session =
  amount :: "BigNumber option"
  memo :: "string option"
  reference :: "PublicKey option"
  status :: PaymentStatus
  navigation :: "(string \<times> bool) list"
  console :: "rpc_error list"

definition new_session :: session where
  "new_session =
     \<lparr>amount = None, memo = None, reference = None, status = New,
      navigation = [], console = []\<rparr>"

text \<open>The setters of lines 28-29 are handed to the consumers as they are (lines 90-93).\<close>

definition setAmount :: "BigNumber option \<Rightarrow> session \<Rightarrow> session" where
  "setAmount a s = s\<lparr>amount := a\<rparr>"

definition setMemo :: "string option \<Rightarrow> session \<Rightarrow> session" where
  "setMemo m s = s\<lparr>memo := m\<rparr>"

definition reset :: "session \<Rightarrow> session" where
  "reset s =
     s\<lparr>amount := None, memo := None, reference := None, status := New,
       navigation := navigation s @ [(''/new'', True)]\<rparr>"

text \<open>
  \<open>generate\<close> (lines 55-61) is a \<open>useCallback\<close> with the dependencies \<open>status\<close>,
  \<open>reference\<close> and \<open>navigate\<close>: its guard reads the status and the reference of the render
  that created the callback (\<open>rendered\<close>), while its setters and \<open>navigate\<close> act on the
  live state. A callback that is up to date with the state \<open>s\<close> is \<open>generate s key s\<close>;
  a callback called again before the provider has rendered anew still carries the old
  \<open>rendered\<close>. \<open>key\<close> is the public key of \<open>Keypair.generate()\<close>.
\<close>

definition generate :: "session \<Rightarrow> PublicKey \<Rightarrow> session \<Rightarrow> session" where
  "generate rendered key s =
     (if status rendered = New \<and> reference rendered = None
      then s\<lparr>reference := Some key, status := Pending,
             navigation := navigation s @ [(''/pending'', False)]\<rparr>
      else s)"

text \<open>
  The watcher (lines 63-85). The effect registers an interval exactly when \<open>watching\<close>
  holds, and its cleanup clears the interval. \<open>checkTransaction\<close> has two \<open>await\<close>s;
  what it does when each of them settles is a function of the state found at that time.
\<close>

definition watching :: "session \<Rightarrow> bool" where
  "watching s = (status s = Pending \<and> reference s \<noteq> None)"

definition catch_error :: "rpc_error \<Rightarrow> session \<Rightarrow> session" where
  "catch_error e s = (if e \<noteq> FindReferenceError then s\<lparr>console := console s @ [e]\<rparr> else s)"

text \<open>After \<open>await findReference(...)\<close>: the signature whose status is fetched next, if
  any.\<close>

definition after_findReference ::
  "TransactionSignature option settled \<Rightarrow> session \<Rightarrow> TransactionSignature option \<times> session" where
  "after_findReference a s =
     (case a of
        Rejected e \<Rightarrow> (None, catch_error e s)
      | Resolved signatureInfo \<Rightarrow> (signatureInfo, s))"

text \<open>After \<open>await connection.getSignatureStatus(...)\<close>; \<open>txStatus.value\<close> may be null.\<close>

definition after_getSignatureStatus :: "SignatureStatus option settled \<Rightarrow> session \<Rightarrow> session" where
  "after_getSignatureStatus a s =
     (case a of
        Rejected e \<Rightarrow> catch_error e s
      | Resolved None \<Rightarrow> s
      | Resolved (Some v) \<Rightarrow>
          if confirmationStatus v = Some ''confirmed'' \<or> confirmationStatus v = Some ''finalized''
          then s\<lparr>status := Confirmed, navigation := navigation s @ [(''/confirmed'', True)]\<rparr>
          else s)"

text \<open>One poll with nothing else happening in between: \<open>found\<close> is how \<open>findReference\<close>
  settles, \<open>fetched sig\<close> how \<open>getSignatureStatus(sig)\<close> settles.\<close>

definition checkTransaction ::
  "TransactionSignature option settled \<Rightarrow>
   (TransactionSignature \<Rightarrow> SignatureStatus option settled) \<Rightarrow> session \<Rightarrow> session" where
  "checkTransaction found fetched s =
     (case after_findReference found s of
        (None, s') \<Rightarrow> s'
      | (Some sig, s') \<Rightarrow> after_getSignatureStatus (fetched sig) s')"

section \<open>Properties of the retry combinator\<close>

declare exponentialBackoff_from.simps [simp del]

lemma backoff_from_done:
  "\<not> i < maxRetries \<Longrightarrow> exponentialBackoff_from i fn maxRetries initialDelay s = (False, s, [])"
  by (simp add: exponentialBackoff_from.simps)

lemma backoff_from_ok:
  "i < maxRetries \<Longrightarrow> fn s = (True, s') \<Longrightarrow>
   exponentialBackoff_from i fn maxRetries initialDelay s = (True, s', [Invoke True])"
  by (simp add: exponentialBackoff_from.simps)

lemma backoff_from_last:
  "i = maxRetries - 1 \<Longrightarrow> fn s = (False, s') \<Longrightarrow>
   exponentialBackoff_from i fn maxRetries initialDelay s = (False, s', [Invoke False])"
  by (simp add: exponentialBackoff_from.simps)

lemma backoff_from_retry:
  "i < maxRetries - 1 \<Longrightarrow> fn s = (False, s') \<Longrightarrow>
   exponentialBackoff_from i fn maxRetries initialDelay s =
     (case exponentialBackoff_from (i + 1) fn maxRetries initialDelay s' of
        (r, s'', tr) \<Rightarrow> (r, s'', Invoke False # Sleep (initialDelay * 2 ^ nat i) # tr))"
  by (simp add: exponentialBackoff_from.simps)

lemma invocations_bounded:
  "int (length (filter is_Invoke (snd (snd (exponentialBackoff_from i fn maxRetries initialDelay s)))))
     \<le> max 0 (maxRetries - i)"
proof (induction "nat (maxRetries - i)" arbitrary: i s)
  case 0
  then have "\<not> i < maxRetries" by simp
  then show ?case by (simp add: backoff_from_done)
next
  case (Suc n)
  then have lt: "i < maxRetries" by simp
  obtain ok s1 where f: "fn s = (ok, s1)" by (cases "fn s")
  show ?case
  proof (cases ok)
    case True
    with lt f show ?thesis by (simp add: backoff_from_ok)
  next
    case False
    show ?thesis
    proof (cases "i = maxRetries - 1")
      case True
      with False f show ?thesis by (simp add: backoff_from_last)
    next
      case last: False
      with lt have lt1: "i < maxRetries - 1" by simp
      from Suc.hyps(2) have "n = nat (maxRetries - (i + 1))" by simp
      from Suc.hyps(1) [OF this, of s1]
      have "int (length (filter is_Invoke
              (snd (snd (exponentialBackoff_from (i + 1) fn maxRetries initialDelay s1)))))
            \<le> max 0 (maxRetries - (i + 1))" .
      with lt1 False f show ?thesis
        by (auto simp add: backoff_from_retry split: prod.splits)
    qed
  qed
qed

text \<open>
  Claim C10. Called with \<open>maxRetries \<le> 0\<close>, \<open>exponentialBackoff\<close> returns false, leaves the
  state as it was and produces no event: the action is never invoked and nothing sleeps.
  For every \<open>maxRetries \<ge> 0\<close>, one call invokes the action at most \<open>maxRetries\<close> times.
\<close>

theorem exponentialBackoff_invocation_bound:
  "(maxRetries \<le> 0 \<longrightarrow> exponentialBackoff fn maxRetries initialDelay s = (False, s, [])) \<and>
   (0 \<le> maxRetries \<longrightarrow>
      int (length (filter is_Invoke (snd (snd (exponentialBackoff fn maxRetries initialDelay s)))))
        \<le> maxRetries)"
  using invocations_bounded [of 0 fn maxRetries initialDelay s]
  by (auto simp add: exponentialBackoff_def backoff_from_done)

theorem exponentialBackoff_invocation_bound_witness:
  "exponentialBackoff (\<lambda>n::nat. (False, Suc n)) 0 1000 7 = (False, 7, []) \<and>
   int (length (filter is_Invoke
     (snd (snd (exponentialBackoff (\<lambda>n::nat. (False, Suc n)) 3 1000 7))))) \<le> 3"
  using exponentialBackoff_invocation_bound [of 0 "\<lambda>n::nat. (False, Suc n)" 1000 7]
    exponentialBackoff_invocation_bound [of 3 "\<lambda>n::nat. (False, Suc n)" 1000 7]
  by simp

lemma succeeds_at_0: "succeeds_at fn s 0 = fst (fn s)"
  by (simp add: succeeds_at_def)

lemma succeeds_at_Suc: "succeeds_at fn s (Suc j) = succeeds_at fn (snd (fn s)) j"
  by (simp add: succeeds_at_def)

lemma fails_shift:
  assumes "\<forall>j<Suc k. \<not> succeeds_at fn s j" and "fn s = (ok, s1)"
  shows "\<forall>j<k. \<not> succeeds_at fn s1 j"
proof (intro allI impI)
  fix j assume "j < k"
  then have "Suc j < Suc k" by simp
  with assms(1) have "\<not> succeeds_at fn s (Suc j)" by blast
  with assms(2) show "\<not> succeeds_at fn s1 j" by (simp add: succeeds_at_Suc)
qed

lemma backoff_from_first_success:
  "\<forall>j<k. \<not> succeeds_at fn s j \<Longrightarrow> succeeds_at fn s k \<Longrightarrow> 0 \<le> i \<Longrightarrow>
   i + int k < maxRetries \<Longrightarrow>
   exponentialBackoff_from i fn maxRetries initialDelay s =
     (True, state_after (Suc k) fn s, failed_rounds initialDelay (nat i) k @ [Invoke True])"
proof (induction k arbitrary: i s)
  case 0
  obtain ok s1 where f: "fn s = (ok, s1)" by (cases "fn s")
  with 0 show ?case by (simp add: succeeds_at_0 backoff_from_ok)
next
  case (Suc k)
  obtain ok s1 where f: "fn s = (ok, s1)" by (cases "fn s")
  from Suc.prems(1) have "\<not> succeeds_at fn s 0" by blast
  with f have nok: "\<not> ok" by (simp add: succeeds_at_0)
  from Suc.prems(1) f have fails: "\<forall>j<k. \<not> succeeds_at fn s1 j"
    by (rule fails_shift)
  from Suc.prems(2) f have ok_k: "succeeds_at fn s1 k" by (simp add: succeeds_at_Suc)
  from Suc.prems have i1: "0 \<le> i + 1" and bound: "(i + 1) + int k < maxRetries" by simp_all
  have rec: "exponentialBackoff_from (i + 1) fn maxRetries initialDelay s1 =
     (True, state_after (Suc k) fn s1, failed_rounds initialDelay (nat (i + 1)) k @ [Invoke True])"
    by (rule Suc.IH [OF fails ok_k i1 bound])
  from Suc.prems have lt: "i < maxRetries - 1" by simp
  from \<open>0 \<le> i\<close> have n: "nat (i + 1) = Suc (nat i)" by simp
  from nok f have "fn s = (False, s1)" by simp
  with lt rec n show ?case
    by (simp add: backoff_from_retry [where s = s and s' = s1])
qed

lemma backoff_from_all_fail:
  "\<forall>j<Suc k. \<not> succeeds_at fn s j \<Longrightarrow> 0 \<le> i \<Longrightarrow> i + int (Suc k) = maxRetries \<Longrightarrow>
   exponentialBackoff_from i fn maxRetries initialDelay s =
     (False, state_after (Suc k) fn s, failed_rounds initialDelay (nat i) k @ [Invoke False])"
proof (induction k arbitrary: i s)
  case 0
  obtain ok s1 where f: "fn s = (ok, s1)" by (cases "fn s")
  from 0 have "\<not> succeeds_at fn s 0" by blast
  with f have "fn s = (False, s1)" by (simp add: succeeds_at_0)
  moreover from 0 have "i = maxRetries - 1" by simp
  ultimately show ?case by (simp add: backoff_from_last)
next
  case (Suc k)
  obtain ok s1 where f: "fn s = (ok, s1)" by (cases "fn s")
  from Suc.prems(1) have "\<not> succeeds_at fn s 0" by blast
  with f have nok: "fn s = (False, s1)" by (simp add: succeeds_at_0)
  from Suc.prems(1) f have fails: "\<forall>j<Suc k. \<not> succeeds_at fn s1 j"
    by (rule fails_shift)
  from Suc.prems have i1: "0 \<le> i + 1" and bound: "(i + 1) + int (Suc k) = maxRetries"
    by simp_all
  have rec: "exponentialBackoff_from (i + 1) fn maxRetries initialDelay s1 =
     (False, state_after (Suc k) fn s1, failed_rounds initialDelay (nat (i + 1)) k @ [Invoke False])"
    by (rule Suc.IH [OF fails i1 bound])
  from Suc.prems have lt: "i < maxRetries - 1" by simp
  from \<open>0 \<le> i\<close> have n: "nat (i + 1) = Suc (nat i)" by simp
  from lt nok rec n show ?case
    by (simp add: backoff_from_retry [where s = s and s' = s1])
qed

lemma sleeps_of_failed_rounds:
  "sleeps (failed_rounds initialDelay i k) = map (\<lambda>j. initialDelay * 2 ^ j) [i..<i + k]"
  by (induction k arbitrary: i) (simp_all add: upt_conv_Cons)

lemma invocations_of_failed_rounds:
  "filter is_Invoke (failed_rounds initialDelay i k) = replicate k (Invoke False)"
  by (induction k arbitrary: i) simp_all

text \<open>
  Claim C6. \<open>exponentialBackoff action maxAttempts initialDelay\<close> returns true as soon as
  one invocation of the action succeeds and invokes it no further: when the invocation
  number \<open>k < maxAttempts\<close> is the first to succeed, the events are \<open>k\<close> failed invocations,
  each followed by a sleep, then the successful invocation, and the state is the one after
  \<open>k + 1\<close> invocations. When all \<open>maxAttempts\<close> invocations fail it returns false, the
  events being \<open>maxAttempts - 1\<close> failed invocations each followed by a sleep, then the
  last failed invocation with no sleep after it. The sleep after the failed attempt \<open>j\<close>
  (\<open>j = 0, 1, \<dots>\<close>) lasts \<open>initialDelay * 2 ^ j\<close> ms (the definition of \<open>failed_rounds\<close>;
  see also \<open>sleeps_of_failed_rounds\<close>), so there are at most \<open>maxAttempts - 1\<close> sleeps.
\<close>

theorem exponentialBackoff_contract:
  "(int k < maxAttempts \<and> (\<forall>j<k. \<not> succeeds_at action s j) \<and> succeeds_at action s k \<longrightarrow>
      exponentialBackoff action maxAttempts initialDelay s =
        (True, state_after (Suc k) action s,
         failed_rounds initialDelay 0 k @ [Invoke True])) \<and>
   (0 < maxAttempts \<and> (\<forall>j<nat maxAttempts. \<not> succeeds_at action s j) \<longrightarrow>
      exponentialBackoff action maxAttempts initialDelay s =
        (False, state_after (nat maxAttempts) action s,
         failed_rounds initialDelay 0 (nat maxAttempts - 1) @ [Invoke False]) \<and>
      sleeps (failed_rounds initialDelay 0 (nat maxAttempts - 1)) =
        map (\<lambda>j. initialDelay * 2 ^ j) [0..<nat maxAttempts - 1])"
proof (intro conjI impI)
  assume a: "int k < maxAttempts \<and> (\<forall>j<k. \<not> succeeds_at action s j) \<and> succeeds_at action s k"
  then have "0 + int k < maxAttempts" by simp
  with a backoff_from_first_success [of k action s 0 maxAttempts initialDelay]
  show "exponentialBackoff action maxAttempts initialDelay s =
        (True, state_after (Suc k) action s, failed_rounds initialDelay 0 k @ [Invoke True])"
    by (simp add: exponentialBackoff_def)
next
  assume a: "0 < maxAttempts \<and> (\<forall>j<nat maxAttempts. \<not> succeeds_at action s j)"
  then obtain k where k: "nat maxAttempts = Suc k" by (cases "nat maxAttempts") auto
  with a have "0 + int (Suc k) = maxAttempts" by linarith
  with a k backoff_from_all_fail [of k action s 0 maxAttempts initialDelay]
  show "exponentialBackoff action maxAttempts initialDelay s =
        (False, state_after (nat maxAttempts) action s,
         failed_rounds initialDelay 0 (nat maxAttempts - 1) @ [Invoke False])"
    by (simp add: exponentialBackoff_def)
next
  show "sleeps (failed_rounds initialDelay 0 (nat maxAttempts - 1)) =
        map (\<lambda>j. initialDelay * 2 ^ j) [0..<nat maxAttempts - 1]"
    using sleeps_of_failed_rounds [of initialDelay 0 "nat maxAttempts - 1"] by simp
qed

theorem exponentialBackoff_contract_witness:
  "exponentialBackoff (\<lambda>n::nat. (2 \<le> n, Suc n)) 5 1000 0 =
     (True, 3, [Invoke False, Sleep 1000, Invoke False, Sleep 2000, Invoke True]) \<and>
   exponentialBackoff (\<lambda>n::nat. (False, Suc n)) 3 1000 0 =
     (False, 3, [Invoke False, Sleep 1000, Invoke False, Sleep 2000, Invoke False])"
proof -
  have h1: "int 2 < 5 \<and> (\<forall>j<2. \<not> succeeds_at (\<lambda>n::nat. (2 \<le> n, Suc n)) 0 j) \<and>
            succeeds_at (\<lambda>n::nat. (2 \<le> n, Suc n)) 0 2"
    by (simp add: succeeds_at_def numeral_2_eq_2 less_Suc_eq)
  have h2: "(0::int) < 3 \<and> (\<forall>j<nat 3. \<not> succeeds_at (\<lambda>n::nat. (False, Suc n)) 0 j)"
    by (simp add: succeeds_at_def)
  from h1 exponentialBackoff_contract [of 2 5 "\<lambda>n::nat. (2 \<le> n, Suc n)" 0 1000]
  have "exponentialBackoff (\<lambda>n::nat. (2 \<le> n, Suc n)) 5 1000 0 =
     (True, 3, [Invoke False, Sleep 1000, Invoke False, Sleep 2000, Invoke True])"
    by (simp add: numeral_2_eq_2 numeral_3_eq_3)
  moreover
  from h2 exponentialBackoff_contract [of 0 3 "\<lambda>n::nat. (False, Suc n)" 0 1000]
  have "exponentialBackoff (\<lambda>n::nat. (False, Suc n)) 3 1000 0 =
     (False, 3, [Invoke False, Sleep 1000, Invoke False, Sleep 2000, Invoke False])"
    by (simp add: numeral_2_eq_2 numeral_3_eq_3)
  ultimately show ?thesis by simp
qed

section \<open>Properties of the polling loop\<close>

















section \<open>Properties of the Stage B extraction\<close>

lemma emitted_set: "t \<in> set (emitted rs) \<longleftrightarrow> Emitted t \<in> set rs"
  by (induction rs rule: emitted.induct) auto

lemma mapped_signatures_nth:
  assumes "r \<in> set (mapped_signatures cfg pts sts sigs)"
  shows "\<exists>i<length sigs. r = extract_transfer cfg (entry pts i) (entry sts i) (sigs ! i)"
proof -
  from assms obtain i where i: "i < length sigs"
    and r: "r = mapped_signatures cfg pts sts sigs ! i"
    by (auto simp add: mapped_signatures_def in_set_conv_nth)
  from i r have "r = extract_transfer cfg (entry pts i) (entry sts i) (sigs ! i)"
    by (simp add: mapped_signatures_def nth_enumerate_eq)
  with i show ?thesis by blast
qed

lemma reconcile_emitted:
  assumes "reconcile cfg pts sts sigs = Some txs" and "t \<in> set txs"
  shows "\<exists>i<length sigs. extract_transfer cfg (entry pts i) (entry sts i) (sigs ! i) = Emitted t"
proof -
  from assms have "Emitted t \<in> set (mapped_signatures cfg pts sts sigs)"
    by (auto simp add: reconcile_def Let_def emitted_set split: if_splits)
  from mapped_signatures_nth [OF this] show ?thesis by auto
qed

lemma extract_transfer_Emitted:
  assumes "extract_transfer cfg pt sst sig = Emitted t"
  shows "\<exists>ptx m ss ts st prog p pre post.
           pt = Some ptx \<and> meta ptx = Some m \<and> sst = Some ss \<and> blockTime ptx = Some ts \<and>
           confirmationStatus ss = Some st \<and>
           instructions ptx = [ParsedInstruction prog (Some p)] \<and>
           amounts cfg ptx m prog (parsed_type p) (info p) = Some (pre, post) \<and>
           emit cfg sig ts (err m) st ss (pre, post) = Emitted t"
  using assms
  by (auto simp add: extract_transfer_def
      split: option.splits list.splits Instruction.splits if_splits)







lemma emit_fields:
  assumes "emit cfg sig ts e st ss pp = Emitted t"
  shows "tx_signature t = sig \<and> tx_timestamp t = ts \<and> tx_error t = e \<and> tx_status t = st \<and>
         tx_confirmations t =
           (if st = ''finalized'' then MAX_CONFIRMATIONS cfg
            else (case confirmations ss of None \<Rightarrow> 0 | Some c \<Rightarrow> c))"
  using assms by (cases pp) (auto simp add: emit_def split: if_splits)

lemma negative_delta_discarded:
  "bn_lt post pre \<Longrightarrow> emit cfg sig ts e st ss (pre, post) = Discarded"
  by (simp add: emit_def)






text \<open>The two token-mode scenarios: the transfer to the token account is recorded with
  the amount 3, the transfer to another account is not recorded.\<close>

lemma token_scenarios:
  "reconcile example_token_config [Some (example_token_transfer ''ATA'')]
     [Some example_confirmed] [''sig1''] =
     Some [\<lparr>tx_signature = ''sig1'', tx_amount = BN 3, tx_timestamp = 1700000000,
            tx_error = None, tx_status = ''confirmed'', tx_confirmations = 3\<rparr>]"
  "reconcile example_token_config [Some (example_token_transfer ''OTHER'')]
     [Some example_confirmed] [''sig1''] = Some []"
  by (simp_all add: reconcile_def mapped_signatures_def entry_def at_index_def
        extract_transfer_def example_token_config_def example_token_transfer_def
        example_confirmed_def amounts_def token_amounts_def token_amount_string_def emit_def
        info_destination_def info_source_def findIndex_def)

text \<open>
  Claim C8. Every record that Stage B publishes carries the confirmation status the
  ledger gave for its signature; when that status is "finalized" its confirmations are
  \<open>MAX_CONFIRMATIONS\<close> exactly, otherwise they are the raw confirmation count the ledger
  gave, and 0 when the ledger gave none.
\<close>

theorem confirmations_clamped:
  assumes "reconcile cfg parsedTransactions signatureStatuses sigs = Some txs"
    and "t \<in> set txs"
  shows "\<exists>i ss. i < length sigs \<and> tx_signature t = sigs ! i \<and>
           entry signatureStatuses i = Some ss \<and>
           confirmationStatus ss = Some (tx_status t) \<and>
           tx_confirmations t =
             (if tx_status t = ''finalized'' then MAX_CONFIRMATIONS cfg
              else (case confirmations ss of None \<Rightarrow> 0 | Some c \<Rightarrow> c))"
proof -
  from reconcile_emitted [OF assms] obtain i where i: "i < length sigs"
    and e: "extract_transfer cfg (entry parsedTransactions i) (entry signatureStatuses i) (sigs ! i)
            = Emitted t" by blast
  from extract_transfer_Emitted [OF e] obtain ptx m ss ts st prog p pre post where
    pt: "entry parsedTransactions i = Some ptx" and m: "meta ptx = Some m"
    and ins: "instructions ptx = [ParsedInstruction prog (Some p)]"
    and ss: "entry signatureStatuses i = Some ss" and st: "confirmationStatus ss = Some st"
    and em: "emit cfg (sigs ! i) ts (err m) st ss (pre, post) = Emitted t" by blast
  from emit_fields [OF em] st have "tx_signature t = sigs ! i"
    and "confirmationStatus ss = Some (tx_status t)"
    and "tx_confirmations t =
           (if tx_status t = ''finalized'' then MAX_CONFIRMATIONS cfg
            else (case confirmations ss of None \<Rightarrow> 0 | Some c \<Rightarrow> c))"
    by simp_all
  with i ss show ?thesis by blast
qed

theorem confirmations_clamped_witness:
  "reconcile example_config [Some example_transfer, Some example_transfer]
     [Some example_finalized, Some example_confirmed] [''sig1'', ''sig1''] =
     Some [example_record ''finalized'' 32, example_record ''confirmed'' 3] \<and>
   MAX_CONFIRMATIONS example_config = 32 \<and>
   (\<exists>i ss. i < length [''sig1'', ''sig1''] \<and>
      entry [Some example_finalized, Some example_confirmed] i = Some ss \<and>
      confirmationStatus ss = Some (tx_status (example_record ''finalized'' 32)) \<and>
      tx_confirmations (example_record ''finalized'' 32) =
        (if tx_status (example_record ''finalized'' 32) = ''finalized''
         then MAX_CONFIRMATIONS example_config
         else (case confirmations ss of None \<Rightarrow> 0 | Some c \<Rightarrow> c)))"
proof -
  have h1: "reconcile example_config [Some example_transfer, Some example_transfer]
     [Some example_finalized, Some example_confirmed] [''sig1'', ''sig1''] =
     Some [example_record ''finalized'' 32, example_record ''confirmed'' 3]"
    by (simp add: reconcile_def mapped_signatures_def entry_def at_index_def
          extract_transfer_def example_config_def example_transfer_def example_meta_def
          example_confirmed_def
          example_finalized_def example_record_def amounts_def native_amounts_def emit_def
          info_destination_def info_source_def findIndex_def LAMPORTS_PER_SOL_def)
  have h2: "example_record ''finalized'' 32 \<in>
              set [example_record ''finalized'' 32, example_record ''confirmed'' 3]"
    by simp
  have h3: "MAX_CONFIRMATIONS example_config = 32" by (simp add: example_config_def)
  from confirmations_clamped [OF h1 h2]
  have "\<exists>i ss. i < length [''sig1'', ''sig1''] \<and>
      entry [Some example_finalized, Some example_confirmed] i = Some ss \<and>
      confirmationStatus ss = Some (tx_status (example_record ''finalized'' 32)) \<and>
      tx_confirmations (example_record ''finalized'' 32) =
        (if tx_status (example_record ''finalized'' 32) = ''finalized''
         then MAX_CONFIRMATIONS example_config
         else (case confirmations ss of None \<Rightarrow> 0 | Some c \<Rightarrow> c))"
    by blast
  with h1 h3 show ?thesis by blast
qed

section \<open>Properties of the loading flag\<close>







text \<open>The flag is shared: when the other stage clears it while the calls of the failing
  iteration are in flight, the iteration finishes with \<open>loading\<close> false although it
  never cleared the flag itself.\<close>

lemma loading_cleared_by_other_stage:
  "exponentialBackoff
     (stageA_action (\<lambda>n. \<lparr>cancelled = False, settled = Rejected (OtherError ''timeout'')\<rparr>)
        other_stage_clears)
     5 1000 (idle_world []) =
   (False,
    \<lparr>signatures = [], transactions = [], loading = False, changed = False, calls = 5\<rparr>,
    [Invoke False, Sleep 1000, Invoke False, Sleep 2000, Invoke False, Sleep 4000,
     Invoke False, Sleep 8000, Invoke False])"
  by (simp add: exponentialBackoff_def exponentialBackoff_from.simps stageA_action_def
        stageA_settle_def start_call_def other_stage_clears_def idle_world_def)



section \<open>Properties of the payment session\<close>

text \<open>
  Claim C7, as stated, fails. The guard of \<open>generate\<close> reads the render that created the
  callback, not the live session: the callback created for a new session, called a second
  time before the provider has rendered again, finds a session that is Pending and has a
  reference, and still replaces the reference and navigates once more.
\<close>

theorem generate_stale_callback_counterexample:
  "status (generate new_session ''K1'' new_session) = Pending \<and>
   reference (generate new_session ''K1'' new_session) = Some ''K1'' \<and>
   generate new_session ''K2'' (generate new_session ''K1'' new_session) \<noteq>
     generate new_session ''K1'' new_session \<and>
   reference (generate new_session ''K2'' (generate new_session ''K1'' new_session)) =
     Some ''K2'' \<and>
   navigation (generate new_session ''K2'' (generate new_session ''K1'' new_session)) =
     [(''/pending'', False), (''/pending'', False)]"
  by (simp add: generate_def new_session_def)

text \<open>
  Claim C7, amended. \<open>generate\<close> changes nothing unless, in the render that created the
  callback, the status is New and there is no reference; when both hold there, the
  session afterwards has the freshly minted key as its reference and the status Pending.
  For a callback that is up to date with the session this is the claim as it was stated:
  nothing changes unless the session's status is New and it has no reference, and
  otherwise the session gets the key and becomes Pending.
\<close>

theorem generate_contract_amended:
  "(\<not> (status rendered = New \<and> reference rendered = None) \<longrightarrow>
      generate rendered key s = s) \<and>
   (status rendered = New \<and> reference rendered = None \<longrightarrow>
      reference (generate rendered key s) = Some key \<and>
      status (generate rendered key s) = Pending) \<and>
   (\<not> (status s = New \<and> reference s = None) \<longrightarrow> generate s key s = s) \<and>
   (status s = New \<and> reference s = None \<longrightarrow>
      reference (generate s key s) = Some key \<and> status (generate s key s) = Pending)"
  by (simp add: generate_def)

theorem generate_contract_amended_witness:
  "generate (generate new_session ''K1'' new_session) ''K2''
     (generate new_session ''K1'' new_session) = generate new_session ''K1'' new_session \<and>
   reference (generate new_session ''K1'' new_session) = Some ''K1'' \<and>
   status (generate new_session ''K1'' new_session) = Pending \<and>
   reference (generate new_session ''K2'' (generate new_session ''K1'' new_session)) =
     Some ''K2''"
proof -
  have h1: "\<not> (status (generate new_session ''K1'' new_session) = New \<and>
                reference (generate new_session ''K1'' new_session) = None)"
    by (simp add: generate_def new_session_def)
  have h2: "status new_session = New \<and> reference new_session = None"
    by (simp add: new_session_def)
  from h1 generate_contract_amended
    [of "generate new_session ''K1'' new_session" "''K2''"
        "generate new_session ''K1'' new_session"]
  have "generate (generate new_session ''K1'' new_session) ''K2''
     (generate new_session ''K1'' new_session) = generate new_session ''K1'' new_session"
    by blast
  moreover
  from h2 generate_contract_amended [of new_session "''K1''" new_session]
  have "reference (generate new_session ''K1'' new_session) = Some ''K1'' \<and>
        status (generate new_session ''K1'' new_session) = Pending"
    by blast
  moreover
  from h2 generate_contract_amended
    [of new_session "''K2''" "generate new_session ''K1'' new_session"]
  have "reference (generate new_session ''K2'' (generate new_session ''K1'' new_session)) =
     Some ''K2''"
    by blast
  ultimately show ?thesis by blast
qed

lemma after_findReference_status: "status (snd (after_findReference a s)) = status s"
  by (simp add: after_findReference_def catch_error_def split: settled.splits)

lemma after_getSignatureStatus_status:
  "status (after_getSignatureStatus b s) \<noteq> status s \<Longrightarrow>
   \<exists>v. b = Resolved (Some v) \<and> status (after_getSignatureStatus b s) = Confirmed \<and>
     (confirmationStatus v = Some ''confirmed'' \<or> confirmationStatus v = Some ''finalized'')"
  by (auto simp add: after_getSignatureStatus_def catch_error_def
      split: settled.splits option.splits if_splits)

text \<open>
  Claim C2. A poll of the watcher sets the status to Confirmed when \<open>findReference\<close>
  resolves with a signature and the status fetched for that signature is "confirmed" or
  "finalized"; in every other poll (the reference is not found, a call throws, the status
  is absent or is below "confirmed") the status stays what it was, so a Pending session
  stays Pending.
\<close>

theorem watcher_confirms_only_when_confirmed:
  "((\<exists>sig v. found = Resolved (Some sig) \<and> fetched sig = Resolved (Some v) \<and>
        (confirmationStatus v = Some ''confirmed'' \<or> confirmationStatus v = Some ''finalized''))
      \<longrightarrow> status (checkTransaction found fetched s) = Confirmed) \<and>
   (\<not> (\<exists>sig v. found = Resolved (Some sig) \<and> fetched sig = Resolved (Some v) \<and>
        (confirmationStatus v = Some ''confirmed'' \<or> confirmationStatus v = Some ''finalized''))
      \<longrightarrow> status (checkTransaction found fetched s) = status s)"
  by (auto simp add: checkTransaction_def after_findReference_def after_getSignatureStatus_def
        catch_error_def split: settled.splits option.splits)

theorem watcher_confirms_only_when_confirmed_witness:
  "status (generate new_session ''K1'' new_session) = Pending \<and>
   status (checkTransaction (Resolved (Some ''sig1'')) (\<lambda>sig. Resolved (Some example_finalized))
             (generate new_session ''K1'' new_session)) = Confirmed \<and>
   status (checkTransaction (Resolved (Some ''sig1'')) (\<lambda>sig. Resolved (Some example_processed))
             (generate new_session ''K1'' new_session)) = Pending \<and>
   status (checkTransaction (Rejected FindReferenceError) (\<lambda>sig. Resolved (Some example_finalized))
             (generate new_session ''K1'' new_session)) = Pending"
proof -
  have p: "status (generate new_session ''K1'' new_session) = Pending"
    by (simp add: generate_def new_session_def)
  have h1: "\<exists>sig v. Resolved (Some ''sig1'') = Resolved (Some sig) \<and>
              (\<lambda>sig. Resolved (Some example_finalized)) sig = Resolved (Some v) \<and>
              (confirmationStatus v = Some ''confirmed'' \<or>
               confirmationStatus v = Some ''finalized'')"
    by (simp add: example_finalized_def)
  have h2: "\<not> (\<exists>sig v. Resolved (Some ''sig1'') = Resolved (Some sig) \<and>
              (\<lambda>sig. Resolved (Some example_processed)) sig = Resolved (Some v) \<and>
              (confirmationStatus v = Some ''confirmed'' \<or>
               confirmationStatus v = Some ''finalized''))"
    by (simp add: example_processed_def)
  have h3: "\<not> (\<exists>sig v. Rejected FindReferenceError = Resolved (Some sig) \<and>
              (\<lambda>sig. Resolved (Some example_finalized)) sig = Resolved (Some v) \<and>
              (confirmationStatus v = Some ''confirmed'' \<or>
               confirmationStatus v = Some ''finalized''))"
    by simp
  from h1 watcher_confirms_only_when_confirmed
    [of "Resolved (Some ''sig1'')" "\<lambda>sig. Resolved (Some example_finalized)"
        "generate new_session ''K1'' new_session"]
  have "status (checkTransaction (Resolved (Some ''sig1''))
          (\<lambda>sig. Resolved (Some example_finalized))
          (generate new_session ''K1'' new_session)) = Confirmed"
    by blast
  moreover
  from h2 watcher_confirms_only_when_confirmed
    [of "Resolved (Some ''sig1'')" "\<lambda>sig. Resolved (Some example_processed)"
        "generate new_session ''K1'' new_session"]
  have "status (checkTransaction (Resolved (Some ''sig1''))
          (\<lambda>sig. Resolved (Some example_processed))
          (generate new_session ''K1'' new_session)) =
        status (generate new_session ''K1'' new_session)"
    by blast
  moreover
  from h3 watcher_confirms_only_when_confirmed
    [of "Rejected FindReferenceError" "\<lambda>sig. Resolved (Some example_finalized)"
        "generate new_session ''K1'' new_session"]
  have "status (checkTransaction (Rejected FindReferenceError)
          (\<lambda>sig. Resolved (Some example_finalized))
          (generate new_session ''K1'' new_session)) =
        status (generate new_session ''K1'' new_session)"
    by blast
  ultimately show ?thesis using p by simp
qed

text \<open>
  Claim C4 fails on the code. The watcher's cleanup only clears the interval; a poll
  that is already in flight has no liveness flag to consult. Here a session is generated,
  a poll starts while the watcher is active, \<open>reset\<close> is called while \<open>findReference\<close> is
  in flight (the watcher is then no longer active), and the two calls of the poll then
  resolve: the poll sets the status to Confirmed and navigates to \<open>/confirmed\<close>, on a
  session that has no reference any more.
\<close>

theorem watcher_publishes_after_reset:
  "watching (generate new_session ''K1'' new_session) \<and>
   \<not> watching (reset (generate new_session ''K1'' new_session)) \<and>
   fst (after_findReference (Resolved (Some ''sig1''))
          (reset (generate new_session ''K1'' new_session))) =
     Some ''sig1'' \<and>
   after_getSignatureStatus (Resolved (Some example_confirmed))
     (snd (after_findReference (Resolved (Some ''sig1''))
             (reset (generate new_session ''K1'' new_session)))) =
     \<lparr>amount = None, memo = None, reference = None, status = Confirmed,
      navigation = [(''/pending'', False), (''/new'', True), (''/confirmed'', True)],
      console = []\<rparr>"
  by (simp add: watching_def generate_def reset_def new_session_def after_findReference_def
        after_getSignatureStatus_def example_confirmed_def)

text \<open>
  Claim C5, as stated, fails: \<open>setAmount\<close> changes the amount of a Pending session.
\<close>

theorem setAmount_while_pending_counterexample:
  "status (generate (setAmount (Some (BN 1)) new_session) ''K1''
      (setAmount (Some (BN 1)) new_session)) \<noteq> New \<and>
   amount (setAmount (Some (BN 2)) (generate (setAmount (Some (BN 1)) new_session) ''K1''
      (setAmount (Some (BN 1)) new_session))) \<noteq>
   amount (generate (setAmount (Some (BN 1)) new_session) ''K1''
      (setAmount (Some (BN 1)) new_session))"
  by (simp add: setAmount_def generate_def new_session_def)

text \<open>
  Claim C5, amended. \<open>generate\<close> and the watcher never change \<open>amount\<close> or \<open>memo\<close>, in
  any status; \<open>reset\<close> clears both; \<open>setAmount\<close> and \<open>setMemo\<close> are the bare state
  setters and replace \<open>amount\<close> and \<open>memo\<close> in every status, not only in New, each
  leaving the other field as it was.
\<close>

theorem session_fields_amended:
  "amount (generate rendered key s) = amount s \<and>
   memo (generate rendered key s) = memo s \<and>
   amount (snd (after_findReference a s)) = amount s \<and>
   memo (snd (after_findReference a s)) = memo s \<and>
   amount (after_getSignatureStatus b s) = amount s \<and>
   memo (after_getSignatureStatus b s) = memo s \<and>
   amount (checkTransaction found fetched s) = amount s \<and>
   memo (checkTransaction found fetched s) = memo s \<and>
   amount (setAmount x s) = x \<and> memo (setAmount x s) = memo s \<and>
   memo (setMemo y s) = y \<and> amount (setMemo y s) = amount s \<and>
   amount (reset s) = None \<and> memo (reset s) = None"
  by (simp add: generate_def checkTransaction_def after_findReference_def
        after_getSignatureStatus_def catch_error_def setAmount_def setMemo_def reset_def
      split: settled.splits option.splits)

end
